theory Spec2Isabelle
  imports Main
begin

section \<open>The task store of bellglen.py\<close>

text \<open>
  The service keeps one module-level list \<^verbatim>\<open>tasks_data\<close> of task dictionaries and
  serves it through four v1 handlers and four v2 handlers that delegate to them. The
  list is threaded through every handler explicitly: a handler takes the list and
  returns its outcome together with the list it leaves behind. A raised
  \<^verbatim>\<open>HTTPException\<close> is the \<open>Inl\<close> branch of the outcome. Logging is left out.
\<close>

subsection \<open>Data\<close>

text \<open>
  A task is a dictionary with exactly the keys \<^verbatim>\<open>Id\<close>, \<^verbatim>\<open>Title\<close>,
  \<^verbatim>\<open>Description\<close> and \<^verbatim>\<open>done\<close>. The field names carry a prefix because
  \<open>Id\<close> is a constant of HOL, \<open>done\<close> is a keyword, and the three classes of the
  source share their field names.
\<close>

record task =
  task_Id :: int
  task_Title :: string
  task_Description :: "string option"
  task_done :: bool

text \<open>The pydantic model \<^verbatim>\<open>NewTask\<close> (an instance that passed validation).\<close>

record NewTask =
  new_Title :: string
  new_Description :: "string option"
  new_done :: bool

text \<open>The pydantic model \<^verbatim>\<open>UpdateTask\<close>: every field defaults to \<^verbatim>\<open>None\<close>.\<close>

record UpdateTask =
  upd_Title :: "string option"
  upd_Description :: "string option"
  upd_done :: "bool option"

text \<open>
  The \<^verbatim>\<open>detail\<close> of an exception. The two f-strings of the source carry the task id;
  the id is kept as a value instead of being rendered into text.
\<close>

datatype detail =
  Task_ID_must_be_a_positive_integer
| Task_with_ID_not_found int
| Unauthorized
| Request_validation_failed

datatype HTTPException = HTTPException (status_code: int) (detail: detail)

text \<open>
  The bodies of the successful answers; each of them also carries
  \<^verbatim>\<open>"Status": "Success"\<close>, which is the same everywhere and therefore left implicit.
\<close>

datatype message =
  Task_Updated_Successfully
| Task_with_ID_deleted int

datatype response =
  Task task
| Task_Added task
| Message message

type_synonym outcome = "(HTTPException + response) \<times> task list"

text \<open>The initial value of \<^verbatim>\<open>tasks_data\<close>.\<close>

definition tasks_data :: "task list" where
  "tasks_data =
     [\<lparr>task_Id = 1, task_Title = ''Complete Lab Activity'',
       task_Description = Some ''Finish Lab Activity 2'', task_done = False\<rparr>]"

subsection \<open>Lookup and the key check\<close>

text \<open>\<^verbatim>\<open>next((task for task in tasks_data if task["Id"] == task_id), None)\<close>\<close>

definition get_task_by_id :: "task list \<Rightarrow> int \<Rightarrow> task option" where
  "get_task_by_id store task_id = find (\<lambda>task. task_Id task = task_id) store"

text \<open>
  \<^verbatim>\<open>api_key_header = APIKeyHeader(name=API_KEY_NAME, auto_error=False)\<close>. Called on
  a request it reads the header \<^verbatim>\<open>GLEN_LAB4_api_key\<close> and tests the value with
  \<^verbatim>\<open>if not api_key\<close>: a request without the header and a request whose header is the
  empty text both give \<^verbatim>\<open>None\<close>; any other value is handed on as it is. The argument
  is the header of the request, \<open>None\<close> when the request has none.
\<close>

definition api_key_header :: "string option \<Rightarrow> string option" where
  "api_key_header header =
     (case header of
        None \<Rightarrow> None
      | Some v \<Rightarrow> if v = [] then None else Some v)"

text \<open>
  \<^verbatim>\<open>API_KEY = os.getenv("LAB4_API_KEY")\<close> is \<^verbatim>\<open>None\<close> when the variable is not set, so
  the configured value is an optional string too; it is a parameter of the model. The
  second argument is what \<^verbatim>\<open>Depends(api_key_header)\<close> delivers.
\<close>

definition validate_api_key :: "string option \<Rightarrow> string option \<Rightarrow> HTTPException + unit" where
  "validate_api_key API_KEY api_key =
     (if api_key \<noteq> API_KEY then Inl (HTTPException 401 Unauthorized) else Inr ())"

subsection \<open>Version 1 handlers\<close>

definition read_task_v1 :: "task list \<Rightarrow> int \<Rightarrow> outcome" where
  "read_task_v1 store task_id =
     (if task_id \<le> 0 then
        (Inl (HTTPException 400 Task_ID_must_be_a_positive_integer), store)
      else
        (case get_task_by_id store task_id of
           None \<Rightarrow> (Inl (HTTPException 404 (Task_with_ID_not_found task_id)), store)
         | Some task \<Rightarrow> (Inr (Task task), store)))"

definition add_task_v1 :: "task list \<Rightarrow> NewTask \<Rightarrow> outcome" where
  "add_task_v1 store new_task =
     (let new_id = int (length store) + 1;
          task_to_add = \<lparr>task_Id = new_id, task_Title = new_Title new_task,
                         task_Description = new_Description new_task,
                         task_done = new_done new_task\<rparr>
      in (Inr (Task_Added task_to_add), store @ [task_to_add]))"

text \<open>The three guarded assignments of \<^verbatim>\<open>modify_task_v1\<close>, in the order of the source.\<close>

definition assign_fields :: "UpdateTask \<Rightarrow> task \<Rightarrow> task" where
  "assign_fields updated_task task =
     (let t1 = (case upd_Title updated_task of
                  None \<Rightarrow> task | Some v \<Rightarrow> task\<lparr>task_Title := v\<rparr>);
          t2 = (case upd_Description updated_task of
                  None \<Rightarrow> t1 | Some v \<Rightarrow> t1\<lparr>task_Description := Some v\<rparr>);
          t3 = (case upd_done updated_task of
                  None \<Rightarrow> t2 | Some v \<Rightarrow> t2\<lparr>task_done := v\<rparr>)
      in t3)"

text \<open>
  The handler mutates the dictionary that \<^verbatim>\<open>get_task_by_id\<close> returned, which is the
  first element of the list with that \<^verbatim>\<open>Id\<close>. Every dictionary of the list was built
  by its own literal, so no two positions share an object and the mutation shows at
  that one position only.
\<close>

fun mutate_found :: "int \<Rightarrow> (task \<Rightarrow> task) \<Rightarrow> task list \<Rightarrow> task list" where
  "mutate_found task_id f [] = []"
| "mutate_found task_id f (t # ts) =
     (if task_Id t = task_id then f t # ts else t # mutate_found task_id f ts)"

definition modify_task_v1 :: "task list \<Rightarrow> int \<Rightarrow> UpdateTask \<Rightarrow> outcome" where
  "modify_task_v1 store task_id updated_task =
     (if task_id \<le> 0 then
        (Inl (HTTPException 400 Task_ID_must_be_a_positive_integer), store)
      else
        (case get_task_by_id store task_id of
           None \<Rightarrow> (Inl (HTTPException 404 (Task_with_ID_not_found task_id)), store)
         | Some task \<Rightarrow>
             (Inr (Message Task_Updated_Successfully),
              mutate_found task_id (assign_fields updated_task) store)))"

text \<open>
  \<^verbatim>\<open>tasks_data.remove(task)\<close> deletes the first element equal to \<^verbatim>\<open>task\<close>, which is
  what \<open>remove1\<close> does.
\<close>

definition remove_task_v1 :: "task list \<Rightarrow> int \<Rightarrow> outcome" where
  "remove_task_v1 store task_id =
     (if task_id \<le> 0 then
        (Inl (HTTPException 400 Task_ID_must_be_a_positive_integer), store)
      else
        (case get_task_by_id store task_id of
           None \<Rightarrow> (Inl (HTTPException 404 (Task_with_ID_not_found task_id)), store)
         | Some task \<Rightarrow>
             (Inr (Message (Task_with_ID_deleted task_id)), remove1 task store)))"

subsection \<open>Version 2 handlers\<close>

text \<open>Each one returns what the v1 handler returns; the key check sits on the route.\<close>

definition read_task_v2 :: "task list \<Rightarrow> int \<Rightarrow> outcome" where
  "read_task_v2 store task_id = read_task_v1 store task_id"

definition add_task_v2 :: "task list \<Rightarrow> NewTask \<Rightarrow> outcome" where
  "add_task_v2 store new_task = add_task_v1 store new_task"

definition modify_task_v2 :: "task list \<Rightarrow> int \<Rightarrow> UpdateTask \<Rightarrow> outcome" where
  "modify_task_v2 store task_id updated_task = modify_task_v1 store task_id updated_task"

definition remove_task_v2 :: "task list \<Rightarrow> int \<Rightarrow> outcome" where
  "remove_task_v2 store task_id = remove_task_v1 store task_id"

subsection \<open>Routes\<close>

text \<open>
  What the decorators add to the handlers. A JSON body is given by the fields it
  supplies (\<open>None\<close> for a field that is left out). The declaration of \<^verbatim>\<open>NewTask\<close>
  requires \<^verbatim>\<open>Title\<close> with at least one character and defaults \<^verbatim>\<open>Description\<close> to
  \<^verbatim>\<open>None\<close> and \<^verbatim>\<open>done\<close> to \<^verbatim>\<open>False\<close>; the declaration of \<^verbatim>\<open>UpdateTask\<close> requires at
  least one character of a \<^verbatim>\<open>Title\<close> that is supplied. A body that fails is answered
  with status 422 and the handler is not called.
\<close>

record NewTask_body =
  body_Title :: "string option"
  body_Description :: "string option"
  body_done :: "bool option"

definition parse_NewTask :: "NewTask_body \<Rightarrow> HTTPException + NewTask" where
  "parse_NewTask body =
     (case body_Title body of
        None \<Rightarrow> Inl (HTTPException 422 Request_validation_failed)
      | Some title \<Rightarrow>
          if length title < 1 then Inl (HTTPException 422 Request_validation_failed)
          else Inr \<lparr>new_Title = title, new_Description = body_Description body,
                    new_done = (case body_done body of None \<Rightarrow> False | Some d \<Rightarrow> d)\<rparr>)"

definition parse_UpdateTask :: "UpdateTask \<Rightarrow> HTTPException + UpdateTask" where
  "parse_UpdateTask body =
     (case upd_Title body of
        None \<Rightarrow> Inr body
      | Some title \<Rightarrow>
          if length title < 1 then Inl (HTTPException 422 Request_validation_failed)
          else Inr body)"

datatype version = V1 | V2

datatype operation =
  GET int
| POST NewTask_body
| PATCH int UpdateTask
| DELETE int

fun endpoint :: "version \<Rightarrow> operation \<Rightarrow> task list \<Rightarrow> outcome" where
  "endpoint V1 (GET task_id) store = read_task_v1 store task_id"
| "endpoint V1 (POST body) store =
     (case parse_NewTask body of
        Inl e \<Rightarrow> (Inl e, store) | Inr new_task \<Rightarrow> add_task_v1 store new_task)"
| "endpoint V1 (PATCH task_id body) store =
     (case parse_UpdateTask body of
        Inl e \<Rightarrow> (Inl e, store)
      | Inr updated_task \<Rightarrow> modify_task_v1 store task_id updated_task)"
| "endpoint V1 (DELETE task_id) store = remove_task_v1 store task_id"
| "endpoint V2 (GET task_id) store = read_task_v2 store task_id"
| "endpoint V2 (POST body) store =
     (case parse_NewTask body of
        Inl e \<Rightarrow> (Inl e, store) | Inr new_task \<Rightarrow> add_task_v2 store new_task)"
| "endpoint V2 (PATCH task_id body) store =
     (case parse_UpdateTask body of
        Inl e \<Rightarrow> (Inl e, store)
      | Inr updated_task \<Rightarrow> modify_task_v2 store task_id updated_task)"
| "endpoint V2 (DELETE task_id) store = remove_task_v2 store task_id"

text \<open>
  A request names the route family, the value of the header \<^verbatim>\<open>GLEN_LAB4_api_key\<close>
  (\<open>None\<close> when the header is absent) and the operation. Only the v2 routes list
  \<^verbatim>\<open>Depends(validate_api_key)\<close>, whose argument is \<^verbatim>\<open>Depends(api_key_header)\<close>; the
  dependency runs before the handler.
\<close>

definition serve :: "string option \<Rightarrow> version \<Rightarrow> string option \<Rightarrow> operation \<Rightarrow> task list \<Rightarrow> outcome" where
  "serve API_KEY v header op store =
     (case v of
        V1 \<Rightarrow> endpoint V1 op store
      | V2 \<Rightarrow>
          (case validate_api_key API_KEY (api_key_header header) of
             Inl e \<Rightarrow> (Inl e, store)
           | Inr _ \<Rightarrow> endpoint V2 op store))"

subsection \<open>A run of the service\<close>

text \<open>
  Two create requests, and the store after the first of them and a delete of task 1:
  \<^verbatim>\<open>POST /v1/tasks {"Title": "Write spec"}\<close>, then \<^verbatim>\<open>DELETE /v1/tasks/1\<close>.
\<close>

definition write_spec :: NewTask where
  "write_spec = \<lparr>new_Title = ''Write spec'', new_Description = None, new_done = False\<rparr>"

definition review_spec :: NewTask where
  "review_spec = \<lparr>new_Title = ''Review spec'', new_Description = None, new_done = False\<rparr>"

definition after_create_delete :: "task list" where
  "after_create_delete = snd (remove_task_v1 (snd (add_task_v1 tasks_data write_spec)) 1)"

section \<open>Properties\<close>

subsection \<open>Auxiliary facts\<close>

lemma endpoint_V2: "endpoint V2 op store = endpoint V1 op store"
  by (cases op)
     (simp_all add: read_task_v2_def add_task_v2_def modify_task_v2_def
        remove_task_v2_def split: sum.splits)

lemma gate_rejects:
  "api_key_header header \<noteq> API_KEY \<Longrightarrow>
   serve API_KEY V2 header op store = (Inl (HTTPException 401 Unauthorized), store)"
  by (simp add: serve_def validate_api_key_def)

lemma gate_passes:
  "api_key_header header = API_KEY \<Longrightarrow>
   serve API_KEY V2 header op store = endpoint V1 op store"
  by (simp add: serve_def validate_api_key_def endpoint_V2)

lemma gate_rejects_configured:
  "header \<noteq> Some k \<Longrightarrow>
   serve (Some k) V2 header op store = (Inl (HTTPException 401 Unauthorized), store)"
  by (rule gate_rejects) (auto simp add: api_key_header_def split: option.splits)


lemma endpoint_V1_failure:
  "fst (endpoint V1 op store) = Inl e \<Longrightarrow> snd (endpoint V1 op store) = store"
  by (cases op)
     (auto simp add: read_task_v1_def add_task_v1_def modify_task_v1_def remove_task_v1_def
        Let_def split: if_splits option.splits sum.splits)

lemma find_Some_mem: "find P xs = Some x \<Longrightarrow> x \<in> set xs \<and> P x"
  by (induction xs) (auto split: if_splits)

lemma find_snoc:
  "find P (xs @ [y]) =
     (case find P xs of Some x \<Rightarrow> Some x | None \<Rightarrow> if P y then Some y else None)"
  by (induction xs) simp_all



lemma remove1_no_other_Id:
  "distinct (map task_Id store) \<Longrightarrow> t \<in> set store \<Longrightarrow>
   \<forall>x\<in>set (remove1 t store). task_Id x \<noteq> task_Id t"
proof (induction store)
  case Nil
  then show ?case by simp
next
  case (Cons a store)
  show ?case
  proof (cases "a = t")
    case True
    with Cons.prems(1) have "task_Id t \<notin> task_Id ` set store" by simp
    then have "\<forall>x\<in>set store. task_Id x \<noteq> task_Id t" by (metis imageI)
    with True show ?thesis by simp
  next
    case False
    with Cons.prems have "t \<in> set store" and "distinct (map task_Id store)"
      and "task_Id a \<noteq> task_Id t"
      by auto
    with Cons.IH False show ?thesis by simp
  qed
qed

lemma after_create_delete_eq:
  "after_create_delete =
     [\<lparr>task_Id = 2, task_Title = ''Write spec'', task_Description = None, task_done = False\<rparr>]"
  by (simp add: after_create_delete_def add_task_v1_def remove_task_v1_def get_task_by_id_def
      tasks_data_def write_spec_def Let_def)

lemma parse_NewTask_defaults:
  "title \<noteq> [] \<Longrightarrow>
   parse_NewTask \<lparr>body_Title = Some title, body_Description = None, body_done = None\<rparr> =
     Inr \<lparr>new_Title = title, new_Description = None, new_done = False\<rparr>"
  by (cases title) (simp_all add: parse_NewTask_def)

subsection \<open>Creation\<close>

text \<open>
  C3. For every store and every create input (so in particular every one with a
  non-empty title), \<open>add_task_v1\<close> succeeds, gives the new task the Id
  \<open>length store + 1\<close>, copies the three supplied fields, appends the task at the end of
  the store and returns it; the returned Id is the size of the store after the
  insertion.
\<close>

theorem add_task_v1_assigns_size_plus_one:
  "\<exists>t. add_task_v1 store new_task = (Inr (Task_Added t), store @ [t])
       \<and> task_Id t = int (length store) + 1
       \<and> task_Id t = int (length (snd (add_task_v1 store new_task)))
       \<and> task_Title t = new_Title new_task
       \<and> task_Description t = new_Description new_task
       \<and> task_done t = new_done new_task"
  by (simp add: add_task_v1_def Let_def)

subsection \<open>Partial update\<close>



subsection \<open>Non-positive ids\<close>

text \<open>
  C6. For an id that is zero or negative, reading, updating and deleting all raise the
  exception with status 400, whatever the store holds (also when it holds a task with
  that very id, so the answer is never 404), and leave the store as it is.
\<close>

theorem nonpositive_id_is_400:
  assumes "task_id \<le> 0"
  shows "read_task_v1 store task_id =
           (Inl (HTTPException 400 Task_ID_must_be_a_positive_integer), store)
       \<and> modify_task_v1 store task_id updated_task =
           (Inl (HTTPException 400 Task_ID_must_be_a_positive_integer), store)
       \<and> remove_task_v1 store task_id =
           (Inl (HTTPException 400 Task_ID_must_be_a_positive_integer), store)"
  using assms by (simp add: read_task_v1_def modify_task_v1_def remove_task_v1_def)

theorem nonpositive_id_is_400_witness:
  "fst (read_task_v1 tasks_data 0) = Inl (HTTPException 400 Task_ID_must_be_a_positive_integer)
 \<and> fst (read_task_v1 tasks_data (- 5)) = Inl (HTTPException 400 Task_ID_must_be_a_positive_integer)
 \<and> fst (modify_task_v1 tasks_data (- 5) \<lparr>upd_Title = None, upd_Description = None, upd_done = Some True\<rparr>)
     = Inl (HTTPException 400 Task_ID_must_be_a_positive_integer)
 \<and> fst (remove_task_v1 tasks_data 0) = Inl (HTTPException 400 Task_ID_must_be_a_positive_integer)"
proof -
  have z: "(0::int) \<le> 0" and m: "(- 5::int) \<le> 0" by simp_all
  show ?thesis
    using nonpositive_id_is_400 [OF z, of tasks_data]
          nonpositive_id_is_400 [OF m, of tasks_data]
    by simp
qed

subsection \<open>Uniqueness of Ids\<close>

text \<open>
  Creating a task keeps the Ids distinct as long as no stored Id exceeds the size of the
  store, and a store with distinct Ids answers 404 after a delete. Neither survives a
  delete of a task that is not the last one, as the run below shows.
\<close>

lemma add_task_v1_keeps_distinct:
  assumes "distinct (map task_Id store)"
    and "\<forall>t\<in>set store. task_Id t \<le> int (length store)"
  shows "distinct (map task_Id (snd (add_task_v1 store new_task)))"
  using assms by (force simp add: add_task_v1_def Let_def)

lemma delete_then_get_distinct:
  assumes "distinct (map task_Id store)"
    and "remove_task_v1 store task_id = (Inr r, store')"
  shows "read_task_v1 store' task_id =
           (Inl (HTTPException 404 (Task_with_ID_not_found task_id)), store')"
proof -
  from assms(2) have pos: "0 < task_id"
    by (auto simp add: remove_task_v1_def split: if_splits)
  with assms(2) obtain t where t: "get_task_by_id store task_id = Some t"
    and s': "store' = remove1 t store"
    by (auto simp add: remove_task_v1_def split: option.splits)
  from t have "t \<in> set store" and "task_Id t = task_id"
    using find_Some_mem [of "\<lambda>x. task_Id x = task_id" store t]
    by (simp_all add: get_task_by_id_def)
  with remove1_no_other_Id [OF assms(1)] s'
  have "get_task_by_id store' task_id = None"
    by (auto simp add: get_task_by_id_def find_None_iff)
  with pos show ?thesis by (simp add: read_task_v1_def)
qed

lemma get_after_create_fresh:
  assumes "\<forall>t\<in>set store. task_Id t \<noteq> int (length store) + 1"
    and "add_task_v1 store new_task = (Inr (Task_Added t'), store')"
  shows "read_task_v1 store' (task_Id t') = (Inr (Task t'), store')
       \<and> task_Title t' = new_Title new_task
       \<and> task_Description t' = new_Description new_task
       \<and> task_done t' = new_done new_task"
proof -
  from assms(2) have t': "t' = \<lparr>task_Id = int (length store) + 1, task_Title = new_Title new_task,
      task_Description = new_Description new_task, task_done = new_done new_task\<rparr>"
    and s': "store' = store @ [t']"
    by (auto simp add: add_task_v1_def Let_def)
  from assms(1) have "find (\<lambda>t. task_Id t = int (length store) + 1) store = None"
    by (simp add: find_None_iff)
  then have "get_task_by_id store' (task_Id t') = Some t'"
    by (simp add: get_task_by_id_def s' find_snoc) (simp add: t')
  then show ?thesis by (simp add: read_task_v1_def t')
qed

text \<open>
  C1. The claim is that the Ids of the store are pairwise distinct in every state
  reached from the initial store. The code does not keep it: from the initial store,
  creating a task, deleting task 1 and creating another task leaves two tasks with
  Id 2, because \<open>add_task_v1\<close> numbers the new task by the size of the store.
\<close>

theorem create_after_delete_duplicates_Id:
  "map task_Id (snd (add_task_v1 after_create_delete review_spec)) = [2, 2]
 \<and> \<not> distinct (map task_Id (snd (add_task_v1 after_create_delete review_spec)))"
  by (simp add: after_create_delete_eq add_task_v1_def review_spec_def Let_def)

text \<open>
  C2. The claim is that a successful delete of an id followed by a read of that id
  answers 404. In the store with two tasks of Id 2 reached above, deleting 2 succeeds
  and removes the first of them only; the read of 2 then succeeds and returns the
  second.
\<close>

theorem delete_then_get_finds_duplicate:
  "remove_task_v1 (snd (add_task_v1 after_create_delete review_spec)) 2 =
     (Inr (Message (Task_with_ID_deleted 2)),
      [\<lparr>task_Id = 2, task_Title = ''Review spec'', task_Description = None, task_done = False\<rparr>])
 \<and> fst (read_task_v1 (snd (remove_task_v1 (snd (add_task_v1 after_create_delete review_spec)) 2)) 2) =
     Inr (Task \<lparr>task_Id = 2, task_Title = ''Review spec'', task_Description = None, task_done = False\<rparr>)"
  by (simp add: after_create_delete_eq add_task_v1_def remove_task_v1_def read_task_v1_def
      get_task_by_id_def review_spec_def Let_def)

text \<open>
  C4. The claim is that reading the id a create returned gives back the supplied
  fields. After the create and the delete of task 1 the store holds one task, with
  Id 2 and title "Write spec"; creating "Review spec" returns Id 2 as well, and
  reading 2 returns the older task, whose title is not the one supplied.
\<close>

theorem get_after_create_returns_older_task:
  "fst (add_task_v1 after_create_delete review_spec) =
     Inr (Task_Added \<lparr>task_Id = 2, task_Title = ''Review spec'', task_Description = None, task_done = False\<rparr>)
 \<and> fst (read_task_v1 (snd (add_task_v1 after_create_delete review_spec)) 2) =
     Inr (Task \<lparr>task_Id = 2, task_Title = ''Write spec'', task_Description = None, task_done = False\<rparr>)"
  by (simp add: after_create_delete_eq add_task_v1_def read_task_v1_def
      get_task_by_id_def review_spec_def Let_def)

subsection \<open>The v2 routes\<close>

text \<open>
  C7. The claim is that a v2 request that carries the configured key in its header is
  answered as the v1 request on the same input. It fails when the configured key is the
  empty text (\<^verbatim>\<open>LAB4_API_KEY=\<close>): a header with the same empty value reaches the check
  as \<^verbatim>\<open>None\<close>, which differs from the configured \<^verbatim>\<open>""\<close>, so the v2 read of task 1
  is answered 401 while the v1 read returns the task.
\<close>

theorem empty_key_in_header_is_rejected:
  "serve (Some []) V2 (Some []) (GET 1) tasks_data =
     (Inl (HTTPException 401 Unauthorized), tasks_data)
 \<and> serve (Some []) V1 (Some []) (GET 1) tasks_data = (Inr (Task (hd tasks_data)), tasks_data)
 \<and> serve (Some []) V2 (Some []) (GET 1) tasks_data \<noteq>
     serve (Some []) V1 (Some []) (GET 1) tasks_data"
  by (simp add: serve_def validate_api_key_def api_key_header_def read_task_v1_def
      get_task_by_id_def tasks_data_def)

text \<open>
  C7, as amended. When a key that is not the empty text is configured and the request
  carries it in the header, every v2 operation gives the same answer and the same store
  as the v1 operation on the same input and store.
\<close>

theorem v2_with_nonempty_correct_key_is_v1:
  assumes "API_KEY = Some k" and "header = Some k" and "k \<noteq> []"
  shows "serve API_KEY V2 header op store = serve API_KEY V1 any_header op store"
proof -
  from assms have "api_key_header header = API_KEY"
    by (simp add: api_key_header_def)
  then have "serve API_KEY V2 header op store = endpoint V1 op store"
    by (rule gate_passes)
  then show ?thesis by (simp add: serve_def)
qed

theorem v2_with_nonempty_correct_key_is_v1_witness:
  "''s3cret'' \<noteq> []
 \<and> serve (Some ''s3cret'') V2 (Some ''s3cret'') (GET 1) tasks_data =
     serve (Some ''s3cret'') V1 None (GET 1) tasks_data
 \<and> serve (Some ''s3cret'') V2 (Some ''s3cret'') (GET 1) tasks_data =
     (Inr (Task (hd tasks_data)), tasks_data)
 \<and> serve (Some ''s3cret'') V2 (Some ''s3cret'') (DELETE 1) tasks_data =
     (Inr (Message (Task_with_ID_deleted 1)), [])"
proof -
  have n: "''s3cret'' \<noteq> []" by simp
  have g: "serve (Some ''s3cret'') V1 None (GET 1) tasks_data = (Inr (Task (hd tasks_data)), tasks_data)"
    by (simp add: serve_def read_task_v1_def get_task_by_id_def tasks_data_def)
  have d: "serve (Some ''s3cret'') V1 None (DELETE 1) tasks_data =
      (Inr (Message (Task_with_ID_deleted 1)), [])"
    by (simp add: serve_def remove_task_v1_def get_task_by_id_def tasks_data_def)
  from v2_with_nonempty_correct_key_is_v1 [OF refl refl n, of "GET 1" tasks_data None]
    v2_with_nonempty_correct_key_is_v1 [OF refl refl n, of "DELETE 1" tasks_data None] g d n
  show ?thesis by simp
qed

text \<open>
  C8. The claim is that a v2 request without the header, or with a value other than
  the configured one, is answered 401 and leaves the store alone. That holds whenever
  a key is configured (\<open>gate_rejects_configured\<close>). With no key configured and no header sent,
  the comparison finds \<^verbatim>\<open>None\<close> on both sides: the read succeeds and the delete
  empties the store.
\<close>

theorem unset_key_and_no_header_passes:
  "serve None V2 None (GET 1) tasks_data = (Inr (Task (hd tasks_data)), tasks_data)
 \<and> serve None V2 None (DELETE 1) tasks_data = (Inr (Message (Task_with_ID_deleted 1)), [])"
  by (simp add: serve_def validate_api_key_def api_key_header_def read_task_v2_def
      remove_task_v2_def read_task_v1_def remove_task_v1_def get_task_by_id_def tasks_data_def)


subsection \<open>Failures\<close>

text \<open>
  C9. Whenever a request to either route family is answered with an exception (400,
  404, 422 or 401), the store after the request is the store before it.
\<close>

theorem failed_request_leaves_store:
  assumes "fst (serve API_KEY v api_key op store) = Inl e"
  shows "snd (serve API_KEY v api_key op store) = store"
proof (cases v)
  case V1
  with assms show ?thesis by (simp add: serve_def endpoint_V1_failure)
next
  case V2
  show ?thesis
  proof (cases "api_key_header api_key = API_KEY")
    case True
    with V2 assms show ?thesis by (simp add: gate_passes endpoint_V1_failure)
  next
    case False
    with V2 show ?thesis by (simp add: gate_rejects)
  qed
qed

theorem failed_request_leaves_store_witness:
  "serve None V1 None (GET 0) tasks_data =
     (Inl (HTTPException 400 Task_ID_must_be_a_positive_integer), tasks_data)
 \<and> serve None V1 None (DELETE 7) tasks_data =
     (Inl (HTTPException 404 (Task_with_ID_not_found 7)), tasks_data)
 \<and> serve None V1 None (POST \<lparr>body_Title = Some [], body_Description = None, body_done = None\<rparr>) tasks_data =
     (Inl (HTTPException 422 Request_validation_failed), tasks_data)
 \<and> serve (Some ''s3cret'') V2 None (DELETE 1) tasks_data =
     (Inl (HTTPException 401 Unauthorized), tasks_data)"
proof -
  have a: "fst (serve None V1 None (GET 0) tasks_data) =
      Inl (HTTPException 400 Task_ID_must_be_a_positive_integer)"
    by (simp add: serve_def read_task_v1_def)
  have b: "fst (serve None V1 None (DELETE 7) tasks_data) =
      Inl (HTTPException 404 (Task_with_ID_not_found 7))"
    by (simp add: serve_def remove_task_v1_def get_task_by_id_def tasks_data_def)
  have c: "fst (serve None V1 None
      (POST \<lparr>body_Title = Some [], body_Description = None, body_done = None\<rparr>) tasks_data) =
      Inl (HTTPException 422 Request_validation_failed)"
    by (simp add: serve_def parse_NewTask_def)
  have d: "fst (serve (Some ''s3cret'') V2 None (DELETE 1) tasks_data) =
      Inl (HTTPException 401 Unauthorized)"
    by (simp add: serve_def validate_api_key_def api_key_header_def)
  from failed_request_leaves_store [OF a] failed_request_leaves_store [OF b]
    failed_request_leaves_store [OF c] failed_request_leaves_store [OF d] a b c d
  show ?thesis by (simp add: prod_eq_iff)
qed

end
